theory Spec2Isabelle
  imports Complex_Main
begin

section \<open>Password strength analyzer and generator (src/app.py)\<close>

text \<open>
  The engine of \<^verbatim>\<open>src/app.py\<close>: the function \<^verbatim>\<open>analyze_password\<close> (lines 76-134) and the
  generator written inline in \<^verbatim>\<open>main\<close> (lines 177-178). The presentation code (CSS, gauge,
  widgets) is not modelled.
\<close>

subsection \<open>Python strings\<close>

text \<open>
  A Python \<^verbatim>\<open>str\<close> is a sequence of Unicode code points: \<^verbatim>\<open>len\<close> counts code points and
  \<^verbatim>\<open>set(password)\<close> holds the distinct code points. A string is a list of code points, each
  a natural number; \<open>ascii\<close> reads an ASCII literal.
\<close>

type_synonym pystr = "nat list"

definition ascii :: "string \<Rightarrow> pystr" where
  "ascii s = map of_char s"

text \<open>
  Two tables of the Unicode character database decide what the standard library does
  beyond ASCII; they are not part of the repository and are parameters of the model:
  which non-ASCII code points are decimal digits (what \<^verbatim>\<open>\d\<close> matches in a \<^verbatim>\<open>str\<close> pattern),
  and the lowercase form of a non-ASCII code point in its string (\<^verbatim>\<open>str.lower\<close> maps one code
  point to one or more, and the capital sigma by its position).
\<close>

record unicode_db =
  decimal_digit :: "nat \<Rightarrow> bool"
  lower_full :: "pystr \<Rightarrow> nat \<Rightarrow> pystr"

text \<open>
  \<^verbatim>\<open>password.lower()\<close>. ASCII capitals move to their small letters and every other ASCII
  code point stays. Exactly two non-ASCII code points have an ASCII code point in their
  lowercase form: U+0130 (capital I with dot above) becomes \<^verbatim>\<open>i\<close> followed by U+0307, and
  U+212A (Kelvin sign) becomes \<^verbatim>\<open>k\<close>. Every other non-ASCII code point lowercases to
  non-ASCII code points only, so the ASCII code points are dropped from what the table
  parameter returns.
\<close>

definition lower_at :: "unicode_db \<Rightarrow> pystr \<Rightarrow> nat \<Rightarrow> pystr" where
  "lower_at u s i =
     (let c = s ! i in
      if 65 \<le> c \<and> c \<le> 90 then [c + 32]
      else if c < 128 then [c]
      else if c = 0x130 then [0x69, 0x307]
      else if c = 0x212A then [0x6B]
      else filter (\<lambda>d. 128 \<le> d) (lower_full u s i))"

definition lower :: "unicode_db \<Rightarrow> pystr \<Rightarrow> pystr" where
  "lower u s = concat (map (lower_at u s) [0..<length s])"

text \<open>\<^verbatim>\<open>pattern in s\<close> for strings: \<open>pattern\<close> occurs in \<open>s\<close> as a contiguous run.\<close>

fun startswith :: "pystr \<Rightarrow> pystr \<Rightarrow> bool" where
  "startswith s [] = True"
| "startswith [] (p # ps) = False"
| "startswith (c # cs) (p # ps) = (c = p \<and> startswith cs ps)"

fun str_contains :: "pystr \<Rightarrow> pystr \<Rightarrow> bool" where
  "str_contains pat [] = (pat = [])"
| "str_contains pat (c # cs) = (startswith (c # cs) pat \<or> str_contains pat cs)"

text \<open>
  \<^verbatim>\<open>bool(re.search('[...]', password))\<close> for a pattern that is one character class: some
  code point of the string is in the class.
\<close>

definition re_search_class :: "(nat \<Rightarrow> bool) \<Rightarrow> pystr \<Rightarrow> bool" where
  "re_search_class cls s = list_ex cls s"

definition class_A_Z :: "nat \<Rightarrow> bool" where
  "class_A_Z c = (65 \<le> c \<and> c \<le> 90)"

definition class_a_z :: "nat \<Rightarrow> bool" where
  "class_a_z c = (97 \<le> c \<and> c \<le> 122)"

text \<open>\<^verbatim>\<open>\d\<close> in a \<^verbatim>\<open>str\<close> pattern: the ASCII digits and the other Unicode decimal digits.\<close>

definition class_d :: "unicode_db \<Rightarrow> nat \<Rightarrow> bool" where
  "class_d u c = ((48 \<le> c \<and> c \<le> 57) \<or> (128 \<le> c \<and> decimal_digit u c))"

text \<open>
  The class of line 85, \<^verbatim>\<open>[!@#$%^&*(),.?":{}|<>[\]]\<close>: the caret is not first, so it is a
  literal, as is the opening bracket; \<^verbatim>\<open>\]\<close> is the closing bracket. Code point 34 is the
  double quote.
\<close>

definition special_chars :: pystr where
  "special_chars = ascii ''!@#$%^&*(),.?'' @ [34] @ ascii '':{}|<>[]''"

definition class_special :: "nat \<Rightarrow> bool" where
  "class_special c = (c \<in> set special_chars)"

subsection \<open>The analyzer\<close>

text \<open>The dictionary \<^verbatim>\<open>criteria\<close> of lines 80-86, with its five fixed keys.\<close>

record criteria_dict =
  length_crit :: bool
  uppercase :: bool
  lowercase :: bool
  digits :: bool
  special :: bool

definition criteria_of :: "unicode_db \<Rightarrow> pystr \<Rightarrow> criteria_dict" where
  "criteria_of u password =
     \<lparr> length_crit = (length password \<ge> 12),
       uppercase = re_search_class class_A_Z password,
       lowercase = re_search_class class_a_z password,
       digits = re_search_class (class_d u) password,
       special = re_search_class class_special password \<rparr>"

text \<open>Lines 89-93: the size of the character pool.\<close>

definition char_pool :: "criteria_dict \<Rightarrow> int" where
  "char_pool crit =
     (let char_pool = 0;
          char_pool = (if uppercase crit then char_pool + 26 else char_pool);
          char_pool = (if lowercase crit then char_pool + 26 else char_pool);
          char_pool = (if digits crit then char_pool + 10 else char_pool);
          char_pool = (if special crit then char_pool + 32 else char_pool)
      in char_pool)"

text \<open>
  Lines 78 and 96-97: the entropy. Python computes it in floating point; here it is the
  real number \<open>len(password) * log2(char_pool)\<close>.
\<close>

definition entropy_of :: "criteria_dict \<Rightarrow> pystr \<Rightarrow> real" where
  "entropy_of crit password =
     (if char_pool crit > 0
      then real (length password) * log 2 (real_of_int (char_pool crit))
      else 0)"

text \<open>Lines 77 and 100-104: the additive score.\<close>

definition additive_score :: "criteria_dict \<Rightarrow> pystr \<Rightarrow> int" where
  "additive_score crit password =
     (let score = 0;
          score = score + min (int (length password) * 2) 30;
          score = (if uppercase crit then score + 15 else score);
          score = (if lowercase crit then score + 15 else score);
          score = (if digits crit then score + 20 else score);
          score = (if special crit then score + 20 else score)
      in score)"

text \<open>Lines 107-110: the common password check, on the score and the suggestions so far.\<close>

definition common_patterns :: "pystr list" where
  "common_patterns = [ascii ''password'', ascii ''1234'', ascii ''qwerty'', ascii ''admin'']"

definition has_common_pattern :: "unicode_db \<Rightarrow> pystr \<Rightarrow> bool" where
  "has_common_pattern u password =
     list_ex (\<lambda>pattern. str_contains pattern (lower u password)) common_patterns"

definition common_check :: "unicode_db \<Rightarrow> pystr \<Rightarrow> int \<times> string list \<Rightarrow> int \<times> string list" where
  "common_check u password st =
     (case st of (score, suggestions) \<Rightarrow>
        if has_common_pattern u password
        then (max 10 (score - 40),
              suggestions @ [''Avoid common passwords or predictable patterns''])
        else (score, suggestions))"

text \<open>
  Lines 113-115: the repetition check. \<^verbatim>\<open>len(password) / 2\<close> is true division, and Python
  compares the integer on the left with the quotient exactly.
\<close>

definition repetitive :: "pystr \<Rightarrow> bool" where
  "repetitive password = (real (length (remdups password)) < real (length password) / 2)"

definition repetition_check :: "pystr \<Rightarrow> int \<times> string list \<Rightarrow> int \<times> string list" where
  "repetition_check password st =
     (case st of (score, suggestions) \<Rightarrow>
        if repetitive password
        then (max 20 (score - 20), suggestions @ [''Reduce character repetition''])
        else (score, suggestions))"

text \<open>Lines 118-125: the strength classification.\<close>

definition classify :: "int \<Rightarrow> real \<Rightarrow> string \<times> string" where
  "classify score entropy =
     (if score < 40 \<or> entropy < 30 then (''Weak'', ''strength-weak'')
      else if score < 70 \<or> entropy < 50 then (''Moderate'', ''strength-moderate'')
      else if score < 90 \<or> entropy < 70 then (''Strong'', ''strength-strong'')
      else (''Excellent'', ''strength-excellent''))"

text \<open>Lines 128-132: one suggestion for each criterion that is false.\<close>

definition missing_suggestions :: "criteria_dict \<Rightarrow> string list \<Rightarrow> string list" where
  "missing_suggestions crit suggestions =
     (let suggestions = (if \<not> length_crit crit
            then suggestions @ [''Use 12+ characters for better security'']
            else suggestions);
          suggestions = (if \<not> uppercase crit
            then suggestions @ [''Add uppercase letters (A-Z)'']
            else suggestions);
          suggestions = (if \<not> lowercase crit
            then suggestions @ [''Add lowercase letters (a-z)'']
            else suggestions);
          suggestions = (if \<not> digits crit
            then suggestions @ [''Include numbers (0-9)'']
            else suggestions);
          suggestions = (if \<not> special crit
            then suggestions @ [''Add special characters (!@#$%^&*)'']
            else suggestions)
      in suggestions)"

text \<open>The tuple that \<^verbatim>\<open>analyze_password\<close> returns (line 134).\<close>

record analysis =
  score :: int
  entropy :: real
  criteria :: criteria_dict
  suggestions :: "string list"
  strength :: "string \<times> string"

definition analyze_password :: "unicode_db \<Rightarrow> pystr \<Rightarrow> analysis" where
  "analyze_password u password =
     (let crit = criteria_of u password;
          entropy = entropy_of crit password;
          st = (additive_score crit password, []);
          st = common_check u password st;
          st = repetition_check password st;
          strength = classify (fst st) entropy;
          suggestions = missing_suggestions crit (snd st)
      in \<lparr> score = fst st, entropy = entropy, criteria = crit,
           suggestions = suggestions, strength = strength \<rparr>)"

subsection \<open>The generator\<close>

text \<open>
  The constants of Python's \<^verbatim>\<open>string\<close> module. Code points 34, 39, 92 and 96 are the double
  quote, the single quote, the backslash and the backtick.
\<close>

definition string_ascii_lowercase :: pystr where
  "string_ascii_lowercase = ascii ''abcdefghijklmnopqrstuvwxyz''"

definition string_ascii_uppercase :: pystr where
  "string_ascii_uppercase = ascii ''ABCDEFGHIJKLMNOPQRSTUVWXYZ''"

definition string_ascii_letters :: pystr where
  "string_ascii_letters = string_ascii_lowercase @ string_ascii_uppercase"

definition string_digits :: pystr where
  "string_digits = ascii ''0123456789''"

definition string_punctuation :: pystr where
  "string_punctuation =
     ascii ''!'' @ [34] @ ascii ''#$%&'' @ [39] @ ascii ''()*+,-./:;<=>?@['' @ [92]
       @ ascii '']^_'' @ [96] @ ascii ''{|}~''"

text \<open>
  The conditions a generation can end in. \<open>IndexError\<close> is what \<^verbatim>\<open>secrets.choice\<close> raises
  on an empty sequence; \<open>InvalidInput\<close> is the condition the specification names, which
  no line of the source raises.
\<close>

datatype gen_error = InvalidInput | IndexError

text \<open>
  \<^verbatim>\<open>secrets.choice(seq)\<close> is \<^verbatim>\<open>seq[randbelow(len(seq))]\<close>. The random source is the sequence
  of its raw draws, \<open>rnd k\<close> for the \<open>k\<close>-th call; reduced modulo the length it ranges over
  every index the call can return.
\<close>

definition choice :: "nat \<Rightarrow> pystr \<Rightarrow> gen_error + nat" where
  "choice r seq = (if seq = [] then Inl IndexError else Inr (seq ! (r mod length seq)))"

text \<open>Line 177: the pool.\<close>

definition chars :: "bool \<Rightarrow> pystr" where
  "chars include_special =
     string_ascii_letters @ string_digits @ (if include_special then string_punctuation else [])"

text \<open>
  Line 178: \<^verbatim>\<open>''.join(secrets.choice(chars) for _ in range(length))\<close>. The loop runs
  \<open>n\<close> times and appends one draw each time.
\<close>

primrec join_choices :: "(nat \<Rightarrow> nat) \<Rightarrow> pystr \<Rightarrow> nat \<Rightarrow> gen_error + pystr" where
  "join_choices rnd pool 0 = Inr []"
| "join_choices rnd pool (Suc n) =
     (case join_choices rnd pool n of
        Inl e \<Rightarrow> Inl e
      | Inr s \<Rightarrow> (case choice (rnd n) pool of Inl e \<Rightarrow> Inl e | Inr c \<Rightarrow> Inr (s @ [c])))"

text \<open>\<^verbatim>\<open>range(length)\<close> is empty for a length that is zero or negative.\<close>

definition generate :: "(nat \<Rightarrow> nat) \<Rightarrow> int \<Rightarrow> bool \<Rightarrow> gen_error + pystr" where
  "generate rnd len include_special = join_choices rnd (chars include_special) (nat len)"

subsection \<open>Inputs and notions of the properties\<close>

text \<open>
  A random source whose every draw is 0, and a character database that knows nothing
  beyond ASCII: no further decimal digits, and every non-ASCII code point is its own
  lowercase form.
\<close>

definition zero_rnd :: "nat \<Rightarrow> nat" where
  "zero_rnd k = 0"

definition ascii_db :: unicode_db where
  "ascii_db = \<lparr> decimal_digit = (\<lambda>c. False), lower_full = (\<lambda>s i. [s ! i]) \<rparr>"

text \<open>
  The punctuation characters of the generator's pool that the class of line 85 does not
  match.
\<close>

definition unmatched_punctuation :: pystr where
  "unmatched_punctuation = filter (\<lambda>c. \<not> class_special c) string_punctuation"

text \<open>
  The order of the four strength labels, from \<open>Weak\<close> (0) to \<open>Excellent\<close> (3).
\<close>

definition tier_rank :: "string \<times> string \<Rightarrow> nat" where
  "tier_rank t =
     (if fst t = ''Weak'' then 0
      else if fst t = ''Moderate'' then 1
      else if fst t = ''Strong'' then 2
      else 3)"

section \<open>Properties\<close>

subsection \<open>Auxiliary facts\<close>

lemma ascii_simps:
  "ascii [] = []" "ascii (c # cs) = of_char c # ascii cs"
  by (simp_all add: ascii_def)

lemma additive_score_bounds:
  "0 \<le> additive_score crit password \<and> additive_score crit password \<le> 100"
  by (simp add: additive_score_def Let_def min_def)

lemma char_pool_ge_10: "0 < char_pool crit \<Longrightarrow> 10 \<le> char_pool crit"
  by (simp add: char_pool_def Let_def split: if_splits)

lemma entropy_of_nonneg: "0 \<le> entropy_of crit password"
proof (cases "0 < char_pool crit")
  case True
  then have "1 \<le> real_of_int (char_pool crit)"
    using char_pool_ge_10 [of crit] by simp
  then have "0 \<le> log 2 (real_of_int (char_pool crit))"
    by simp
  then show ?thesis
    using True by (simp add: entropy_of_def)
next
  case False
  then show ?thesis by (simp add: entropy_of_def)
qed

lemma score_analyze:
  "score (analyze_password u password) =
     fst (repetition_check password
       (common_check u password (additive_score (criteria_of u password) password, [])))"
  by (simp add: analyze_password_def Let_def)

lemma entropy_analyze:
  "entropy (analyze_password u password) = entropy_of (criteria_of u password) password"
  by (simp add: analyze_password_def Let_def)

lemma fst_common_check:
  "fst (common_check u password (s, sg)) =
     (if has_common_pattern u password then max 10 (s - 40) else s)"
  by (simp add: common_check_def)

lemma fst_repetition_check:
  "fst (repetition_check password (s, sg)) =
     (if repetitive password then max 20 (s - 20) else s)"
  by (simp add: repetition_check_def)

lemma join_choices_ok:
  "pool \<noteq> [] \<Longrightarrow> \<exists>s. join_choices rnd pool n = Inr s \<and> length s = n \<and> set s \<subseteq> set pool"
proof (induction n)
  case 0
  then show ?case by simp
next
  case (Suc n)
  then obtain s where s: "join_choices rnd pool n = Inr s" "length s = n" "set s \<subseteq> set pool"
    by blast
  have "rnd n mod length pool < length pool"
    using Suc.prems by simp
  then have "pool ! (rnd n mod length pool) \<in> set pool"
    by (rule nth_mem)
  then show ?case
    using s Suc.prems by (simp add: choice_def)
qed

lemma chars_nonempty: "chars b \<noteq> []"
  by (simp add: chars_def string_ascii_letters_def string_ascii_lowercase_def ascii_simps)

subsection \<open>Score and entropy bounds\<close>

text \<open>
  Claim C1. For every input string, the score that \<open>analyze_password\<close> returns is an
  integer between 0 and 100, and the entropy it returns is not negative. The entropy is
  the real number the floating-point computation approximates.
\<close>

theorem analyze_score_entropy_bounds:
  "0 \<le> score (analyze_password u password) \<and>
   score (analyze_password u password) \<le> 100 \<and>
   0 \<le> entropy (analyze_password u password)"
proof -
  obtain st where st:
    "common_check u password (additive_score (criteria_of u password) password, []) = st"
    by simp
  have a: "0 \<le> additive_score (criteria_of u password) password"
    "additive_score (criteria_of u password) password \<le> 100"
    using additive_score_bounds by simp_all
  have "0 \<le> fst st \<and> fst st \<le> 100"
    using a st [symmetric] by (simp add: fst_common_check max_def)
  then have "0 \<le> fst (repetition_check password st) \<and> fst (repetition_check password st) \<le> 100"
    by (cases st) (simp add: fst_repetition_check max_def)
  then show ?thesis
    using entropy_of_nonneg by (simp add: score_analyze entropy_analyze st)
qed

theorem analyze_score_entropy_bounds_witness:
  "0 \<le> score (analyze_password ascii_db (ascii ''password'')) \<and>
   score (analyze_password ascii_db (ascii ''password'')) \<le> 100 \<and>
   0 \<le> entropy (analyze_password ascii_db (ascii ''password''))"
  using analyze_score_entropy_bounds [of ascii_db "ascii ''password''"] by simp

subsection \<open>The generator on a length that is not positive\<close>




subsection \<open>The generator on a positive length\<close>

lemma string_punctuation_eq:
  "string_punctuation = [33..<48] @ [58..<65] @ [91..<97] @ [123..<127]"
  by code_simp

lemma string_ascii_lowercase_eq: "string_ascii_lowercase = [97..<123]"
  by code_simp

lemma string_ascii_uppercase_eq: "string_ascii_uppercase = [65..<91]"
  by code_simp

lemma string_digits_eq: "string_digits = [48..<58]"
  by code_simp

lemma in_string_punctuation:
  "c \<in> set string_punctuation \<longleftrightarrow>
     (33 \<le> c \<and> c \<le> 47) \<or> (58 \<le> c \<and> c \<le> 64) \<or> (91 \<le> c \<and> c \<le> 96) \<or> (123 \<le> c \<and> c \<le> 126)"
  unfolding string_punctuation_eq by (simp only: set_append set_upt Un_iff atLeastLessThan_iff) arith

lemma in_chars_False:
  "c \<in> set (chars False) \<longleftrightarrow>
     (48 \<le> c \<and> c \<le> 57) \<or> (65 \<le> c \<and> c \<le> 90) \<or> (97 \<le> c \<and> c \<le> 122)"
  unfolding chars_def string_ascii_letters_def string_ascii_lowercase_eq
      string_ascii_uppercase_eq string_digits_eq
  by (simp only: set_append set_upt Un_iff atLeastLessThan_iff if_False append_Nil2) arith

lemma set_chars_True: "set (chars True) = set (chars False) \<union> set string_punctuation"
  by (simp add: chars_def Un_assoc)

lemma chars_False_no_punctuation: "set (chars False) \<inter> set string_punctuation = {}"
proof -
  have "c \<notin> set string_punctuation" if "c \<in> set (chars False)" for c
    using that unfolding in_chars_False in_string_punctuation by arith
  then show ?thesis by blast
qed

lemma in_chars:
  "c \<in> set (chars include_special) \<longleftrightarrow>
     class_A_Z c \<or> class_a_z c \<or> (48 \<le> c \<and> c \<le> 57) \<or>
     (include_special \<and> c \<in> set string_punctuation)"
proof (cases include_special)
  case True
  then show ?thesis
    by (simp add: set_chars_True in_chars_False class_A_Z_def class_a_z_def disj_commute disj_left_commute)
next
  case False
  then show ?thesis
    by (simp add: in_chars_False class_A_Z_def class_a_z_def disj_commute disj_left_commute)
qed

lemma set_chars:
  "set (chars include_special) =
     {c. class_A_Z c \<or> class_a_z c \<or> (48 \<le> c \<and> c \<le> 57) \<or>
         (include_special \<and> c \<in> set string_punctuation)}"
  using in_chars [of _ include_special] by (intro set_eqI) simp

text \<open>
  Claim C3. For every positive length and either setting of \<open>include_special\<close>, whatever
  the random source draws, \<open>generate\<close> returns a string of exactly that many characters,
  each from the pool \<open>chars include_special\<close>. The pool holds the ASCII letters and digits,
  and the punctuation characters only when \<open>include_special\<close> is true; with
  \<open>include_special\<close> false, no character of the output is a punctuation character.
\<close>

theorem generate_length_and_pool:
  "0 < len \<Longrightarrow>
     \<exists>s. generate rnd len include_special = Inr s \<and>
         int (length s) = len \<and>
         set s \<subseteq> set (chars include_special) \<and>
         set (chars include_special) =
           {c. class_A_Z c \<or> class_a_z c \<or> (48 \<le> c \<and> c \<le> 57) \<or>
               (include_special \<and> c \<in> set string_punctuation)} \<and>
         (\<not> include_special \<longrightarrow> set s \<inter> set string_punctuation = {})"
proof -
  assume len: "0 < len"
  obtain s where s: "join_choices rnd (chars include_special) (nat len) = Inr s"
    "length s = nat len" "set s \<subseteq> set (chars include_special)"
    using join_choices_ok [OF chars_nonempty] by blast
  have g: "generate rnd len include_special = Inr s"
    using s(1) by (simp add: generate_def)
  have l: "int (length s) = len"
    using s(2) len by simp
  have p: "\<not> include_special \<longrightarrow> set s \<inter> set string_punctuation = {}"
  proof
    assume "\<not> include_special"
    then have "set s \<subseteq> set (chars False)"
      using s(3) by simp
    then show "set s \<inter> set string_punctuation = {}"
      using chars_False_no_punctuation by blast
  qed
  show ?thesis
    using g l s(3) set_chars [of include_special] p by (intro exI [of _ s] conjI)
qed


theorem generate_length_and_pool_witness:
  "generate zero_rnd 3 False = Inr [97, 97, 97] \<and>
   set [97, 97, 97] \<subseteq> set (chars False) \<and>
   set [97, 97, 97] \<inter> set string_punctuation = {}"
proof -
  have g: "generate zero_rnd 3 False = Inr [97, 97, 97]"
    by code_simp
  obtain s where s: "generate zero_rnd 3 False = Inr s" "set s \<subseteq> set (chars False)"
    "set s \<inter> set string_punctuation = {}"
    using generate_length_and_pool [of 3 zero_rnd False] by auto
  have "s = [97, 97, 97]"
    using s(1) g by simp
  then show ?thesis
    using g s(2,3) by simp
qed

subsection \<open>Punctuation the generator emits and the analyzer does not count\<close>

lemma special_chars_eq:
  "special_chars =
     [33, 64, 35, 36, 37, 94, 38, 42, 40, 41, 44, 46, 63, 34, 58, 123, 125, 124, 60, 62, 91, 93]"
  by code_simp

lemma unmatched_punctuation_eq:
  "unmatched_punctuation = [39, 43, 45, 47, 59, 61, 92, 95, 96, 126]"
  by code_simp

lemma punctuation_counts:
  "length string_punctuation = 32 \<and> distinct string_punctuation \<and>
   length special_chars = 22 \<and> distinct special_chars"
  by code_simp

lemma special_chars_punctuation: "set special_chars \<subseteq> set string_punctuation"
proof
  fix c assume "c \<in> set special_chars"
  then show "c \<in> set string_punctuation"
    unfolding special_chars_eq in_string_punctuation by auto
qed

lemma alnum_not_special:
  "c \<in> set string_ascii_letters \<union> set string_digits \<Longrightarrow> \<not> class_special c"
proof -
  assume "c \<in> set string_ascii_letters \<union> set string_digits"
  then have "c \<in> set (chars False)"
    by (simp add: chars_def)
  then have "(48 \<le> c \<and> c \<le> 57) \<or> (65 \<le> c \<and> c \<le> 90) \<or> (97 \<le> c \<and> c \<le> 122)"
    by (simp only: in_chars_False)
  then show ?thesis
    unfolding class_special_def special_chars_eq by auto
qed

lemma unmatched_not_special: "c \<in> set unmatched_punctuation \<Longrightarrow> \<not> class_special c"
  by (simp add: unmatched_punctuation_def)

lemma special_criteria:
  "special (criteria (analyze_password u password)) \<longleftrightarrow> (\<exists>c\<in>set password. class_special c)"
  by (simp add: analyze_password_def Let_def criteria_of_def re_search_class_def list_ex_iff)

lemma join_choices_constant:
  "k < length pool \<Longrightarrow> join_choices (\<lambda>_. k) pool n = Inr (replicate n (pool ! k))"
proof (induction n)
  case 0
  then show ?case by simp
next
  case (Suc n)
  then have "pool \<noteq> []" by auto
  then show ?case
    using Suc by (simp add: choice_def replicate_append_same)
qed

lemma generate_repeat:
  assumes "c \<in> set (chars b)"
  shows "\<exists>rnd. generate rnd len b = Inr (replicate (nat len) c)"
proof -
  obtain k where k: "k < length (chars b)" "chars b ! k = c"
    using assms by (auto simp: in_set_conv_nth)
  have "generate (\<lambda>_. k) len b = Inr (replicate (nat len) c)"
    using join_choices_constant [OF k(1)] k(2) by (simp add: generate_def)
  then show ?thesis by (rule exI [of _ "\<lambda>_. k"])
qed

text \<open>
  Claim C10. The pool of \<open>generate\<close> with \<open>include_special\<close> true holds all 32 ASCII
  punctuation characters, and the class behind the \<open>special\<close> criterion holds 22 of them.
  The ten others are the single quote, \<open>+ - / ; =\<close>, the backslash, the underscore, the
  backtick and the tilde: \<open>generate\<close> can emit each of them (for any length, some draws give
  the string that repeats it), and a password made only of letters, digits and these
  characters has the criterion \<open>special\<close> false.
\<close>

theorem generator_punctuation_unmatched:
  "length string_punctuation = 32 \<and> distinct string_punctuation \<and>
   set string_punctuation \<subseteq> set (chars True) \<and>
   length special_chars = 22 \<and> distinct special_chars \<and>
   set special_chars \<subseteq> set string_punctuation \<and>
   unmatched_punctuation = [39, 43, 45, 47, 59, 61, 92, 95, 96, 126] \<and>
   (\<forall>c\<in>set unmatched_punctuation.
      c \<in> set string_punctuation \<and>
      (\<exists>rnd. generate rnd len True = Inr (replicate (nat len) c))) \<and>
   (\<forall>password.
      set password \<subseteq> set string_ascii_letters \<union> set string_digits \<union> set unmatched_punctuation
      \<longrightarrow> \<not> special (criteria (analyze_password u password)))"
proof -
  have sub: "set string_punctuation \<subseteq> set (chars True)"
    by (simp add: set_chars_True)
  have emit: "c \<in> set string_punctuation \<and>
      (\<exists>rnd. generate rnd len True = Inr (replicate (nat len) c))"
    if "c \<in> set unmatched_punctuation" for c
  proof -
    have "c \<in> set string_punctuation"
      using that by (simp add: unmatched_punctuation_def)
    then show ?thesis
      using sub generate_repeat [of c True len] by blast
  qed
  have none: "\<not> special (criteria (analyze_password u password))"
    if "set password \<subseteq> set string_ascii_letters \<union> set string_digits \<union> set unmatched_punctuation"
    for password
  proof -
    have "\<not> class_special c" if "c \<in> set password" for c
    proof -
      have "c \<in> set string_ascii_letters \<union> set string_digits \<or> c \<in> set unmatched_punctuation"
        using that \<open>set password \<subseteq> _\<close> by blast
      then show ?thesis
        using alnum_not_special unmatched_not_special by blast
    qed
    then show ?thesis
      by (simp add: special_criteria)
  qed
  show ?thesis
    using punctuation_counts sub special_chars_punctuation unmatched_punctuation_eq emit none
    by (intro conjI ballI allI impI) simp_all
qed

theorem generator_punctuation_unmatched_witness:
  "45 \<in> set string_punctuation \<and>
   (\<exists>rnd. generate rnd 8 True = Inr [45, 45, 45, 45, 45, 45, 45, 45]) \<and>
   \<not> special (criteria (analyze_password ascii_db [45, 45, 45, 45, 45, 45, 45, 45])) \<and>
   \<not> special (criteria (analyze_password ascii_db [97, 45, 95]))"
proof -
  note t = generator_punctuation_unmatched [of 8 ascii_db]
  have u: "45 \<in> set unmatched_punctuation" "95 \<in> set unmatched_punctuation"
    by (simp_all add: unmatched_punctuation_eq)
  have a: "97 \<in> set string_ascii_letters"
    by (simp add: string_ascii_letters_def string_ascii_lowercase_eq)
  have r: "replicate (nat 8) 45 = [45, 45, 45, 45, 45, 45, 45, 45::nat]"
    by code_simp
  have e: "\<exists>rnd. generate rnd 8 True = Inr [45, 45, 45, 45, 45, 45, 45, 45]"
    using t u(1) unfolding r [symmetric] by blast
  have "set [45, 45, 45, 45, 45, 45, 45, 45] \<subseteq>
      set string_ascii_letters \<union> set string_digits \<union> set unmatched_punctuation"
    using u by simp
  then have s8: "\<not> special (criteria (analyze_password ascii_db [45, 45, 45, 45, 45, 45, 45, 45]))"
    using t by blast
  have "set [97, 45, 95] \<subseteq>
      set string_ascii_letters \<union> set string_digits \<union> set unmatched_punctuation"
    using u a by simp
  then have s3: "\<not> special (criteria (analyze_password ascii_db [97, 45, 95]))"
    using t by blast
  have p: "45 \<in> set string_punctuation"
    using t u(1) by blast
  show ?thesis
    using p e s8 s3 by (intro conjI)
qed

subsection \<open>The strength tier\<close>

lemma tier_rank_classify:
  "tier_rank (classify s e) =
     (if s < 40 \<or> e < 30 then 0 else if s < 70 \<or> e < 50 then 1
      else if s < 90 \<or> e < 70 then 2 else 3)"
  by (simp add: classify_def tier_rank_def)

lemma strength_analyze:
  "strength (analyze_password u password) =
     classify (score (analyze_password u password)) (entropy (analyze_password u password))"
  by (simp add: analyze_password_def Let_def)

text \<open>
  Claim C8. The strength that \<open>analyze_password\<close> returns is \<open>classify\<close> of the score and
  the entropy it returns, and of nothing else. \<open>classify\<close> is monotone in each argument
  with the other fixed: a larger score, or a larger entropy, never gives a weaker tier.
  The boundaries are 40, 70 and 90 for the score and 30, 50 and 70 for the entropy; a tier
  is lost when the score or the entropy is below its boundary, so that a tier needs both
  to clear it.
\<close>

theorem classify_monotone:
  "strength (analyze_password u password) =
     classify (score (analyze_password u password)) (entropy (analyze_password u password)) \<and>
   (s1 \<le> s2 \<longrightarrow> tier_rank (classify s1 e) \<le> tier_rank (classify s2 e)) \<and>
   (e1 \<le> e2 \<longrightarrow> tier_rank (classify s e1) \<le> tier_rank (classify s e2)) \<and>
   (classify s e = (''Weak'', ''strength-weak'') \<longleftrightarrow> s < 40 \<or> e < 30) \<and>
   (classify s e = (''Moderate'', ''strength-moderate'') \<longleftrightarrow>
      \<not> (s < 40 \<or> e < 30) \<and> (s < 70 \<or> e < 50)) \<and>
   (classify s e = (''Strong'', ''strength-strong'') \<longleftrightarrow>
      \<not> (s < 40 \<or> e < 30) \<and> \<not> (s < 70 \<or> e < 50) \<and> (s < 90 \<or> e < 70)) \<and>
   (classify s e = (''Excellent'', ''strength-excellent'') \<longleftrightarrow>
      40 \<le> s \<and> 30 \<le> e \<and> 70 \<le> s \<and> 50 \<le> e \<and> 90 \<le> s \<and> 70 \<le> e) \<and>
   tier_rank (''Weak'', ''strength-weak'') < tier_rank (''Moderate'', ''strength-moderate'') \<and>
   tier_rank (''Moderate'', ''strength-moderate'') < tier_rank (''Strong'', ''strength-strong'') \<and>
   tier_rank (''Strong'', ''strength-strong'') < tier_rank (''Excellent'', ''strength-excellent'')"
proof -
  have m1: "s1 \<le> s2 \<longrightarrow> tier_rank (classify s1 e) \<le> tier_rank (classify s2 e)"
    unfolding tier_rank_classify by auto
  have m2: "e1 \<le> e2 \<longrightarrow> tier_rank (classify s e1) \<le> tier_rank (classify s e2)"
    unfolding tier_rank_classify by auto
  have w: "classify s e = (''Weak'', ''strength-weak'') \<longleftrightarrow> s < 40 \<or> e < 30"
    by (simp add: classify_def)
  have m: "classify s e = (''Moderate'', ''strength-moderate'') \<longleftrightarrow>
      \<not> (s < 40 \<or> e < 30) \<and> (s < 70 \<or> e < 50)"
    by (simp add: classify_def)
  have st: "classify s e = (''Strong'', ''strength-strong'') \<longleftrightarrow>
      \<not> (s < 40 \<or> e < 30) \<and> \<not> (s < 70 \<or> e < 50) \<and> (s < 90 \<or> e < 70)"
    by (simp add: classify_def)
  have x: "classify s e = (''Excellent'', ''strength-excellent'') \<longleftrightarrow>
      40 \<le> s \<and> 30 \<le> e \<and> 70 \<le> s \<and> 50 \<le> e \<and> 90 \<le> s \<and> 70 \<le> e"
    by (auto simp: classify_def)
  have r: "tier_rank (''Weak'', ''strength-weak'') < tier_rank (''Moderate'', ''strength-moderate'')"
    "tier_rank (''Moderate'', ''strength-moderate'') < tier_rank (''Strong'', ''strength-strong'')"
    "tier_rank (''Strong'', ''strength-strong'') < tier_rank (''Excellent'', ''strength-excellent'')"
    by (simp_all add: tier_rank_def)
  show ?thesis
    using strength_analyze m1 m2 w m st x r by (intro conjI)
qed

theorem classify_monotone_witness:
  "tier_rank (classify 35 60) \<le> tier_rank (classify 75 60) \<and>
   tier_rank (classify 95 40) \<le> tier_rank (classify 95 80) \<and>
   classify 95 80 = (''Excellent'', ''strength-excellent'') \<and>
   classify 35 60 = (''Weak'', ''strength-weak'')"
proof -
  note a = classify_monotone [of ascii_db "[]" 35 75 60 40 80 95]
  note b = classify_monotone [of ascii_db "[]" 35 75 80 40 80 95]
  note c = classify_monotone [of ascii_db "[]" 35 75 60 40 80 35]
  have "tier_rank (classify 35 60) \<le> tier_rank (classify 75 60)"
    using a by simp
  moreover have "tier_rank (classify 95 40) \<le> tier_rank (classify 95 80)"
    using a by simp
  moreover have "classify 95 80 = (''Excellent'', ''strength-excellent'')"
    using b by simp
  moreover have "classify 35 60 = (''Weak'', ''strength-weak'')"
    using c by simp
  ultimately show ?thesis by (intro conjI)
qed

subsection \<open>The suggestions\<close>

lemma snd_common_check:
  "snd (common_check u password (s, sg)) =
     sg @ (if has_common_pattern u password
           then [''Avoid common passwords or predictable patterns''] else [])"
  by (simp add: common_check_def)

lemma snd_repetition_check:
  "snd (repetition_check password st) =
     snd st @ (if repetitive password then [''Reduce character repetition''] else [])"
  by (cases st) (simp add: repetition_check_def)

lemma missing_suggestions_append:
  "missing_suggestions crit sg =
     sg @ (if \<not> length_crit crit then [''Use 12+ characters for better security''] else [])
        @ (if \<not> uppercase crit then [''Add uppercase letters (A-Z)''] else [])
        @ (if \<not> lowercase crit then [''Add lowercase letters (a-z)''] else [])
        @ (if \<not> digits crit then [''Include numbers (0-9)''] else [])
        @ (if \<not> special crit then [''Add special characters (!@#$%^&*)''] else [])"
  by (simp add: missing_suggestions_def Let_def)

lemma suggestions_analyze:
  "suggestions (analyze_password u password) =
     missing_suggestions (criteria_of u password)
       (snd (repetition_check password
         (common_check u password (additive_score (criteria_of u password) password, []))))"
  by (simp add: analyze_password_def Let_def)

lemma criteria_analyze: "criteria (analyze_password u password) = criteria_of u password"
  by (simp add: analyze_password_def Let_def)

lemma singleton_if_Nil: "((if b then [x] else []) = []) \<longleftrightarrow> \<not> b"
  by simp

lemma suggestions_eq:
  "suggestions (analyze_password u password) =
     (if has_common_pattern u password
      then [''Avoid common passwords or predictable patterns''] else [])
     @ (if repetitive password then [''Reduce character repetition''] else [])
     @ (if \<not> length_crit (criteria (analyze_password u password))
        then [''Use 12+ characters for better security''] else [])
     @ (if \<not> uppercase (criteria (analyze_password u password))
        then [''Add uppercase letters (A-Z)''] else [])
     @ (if \<not> lowercase (criteria (analyze_password u password))
        then [''Add lowercase letters (a-z)''] else [])
     @ (if \<not> digits (criteria (analyze_password u password))
        then [''Include numbers (0-9)''] else [])
     @ (if \<not> special (criteria (analyze_password u password))
        then [''Add special characters (!@#$%^&*)''] else [])"
  by (simp only: suggestions_analyze criteria_analyze missing_suggestions_append
      snd_repetition_check snd_common_check append_Nil append_assoc)

lemma repetitive_iff:
  "repetitive password \<longleftrightarrow> 2 * length (remdups password) < length password"
proof -
  have "real (length (remdups password)) < real (length password) / 2 \<longleftrightarrow>
      2 * real (length (remdups password)) < real (length password)"
    by (simp add: field_simps)
  also have "\<dots> \<longleftrightarrow> real (2 * length (remdups password)) < real (length password)"
    by simp
  also have "\<dots> \<longleftrightarrow> 2 * length (remdups password) < length password"
    by (simp only: of_nat_less_iff)
  finally show ?thesis by (simp only: repetitive_def)
qed

lemma startswith_iff: "startswith s pat \<longleftrightarrow> (\<exists>suf. s = pat @ suf)"
  by (induction s pat rule: startswith.induct) auto

lemma str_contains_iff: "str_contains pat s \<longleftrightarrow> (\<exists>pre suf. s = pre @ pat @ suf)"
proof (induction s)
  case Nil
  then show ?case by auto
next
  case (Cons c cs)
  have "(\<exists>pre suf. c # cs = pre @ pat @ suf) \<longleftrightarrow>
      (\<exists>suf. c # cs = pat @ suf) \<or> (\<exists>pre suf. cs = pre @ pat @ suf)"
  proof
    assume "\<exists>pre suf. c # cs = pre @ pat @ suf"
    then obtain pre suf where e: "c # cs = pre @ pat @ suf" by blast
    show "(\<exists>suf. c # cs = pat @ suf) \<or> (\<exists>pre suf. cs = pre @ pat @ suf)"
    proof (cases pre)
      case Nil
      then show ?thesis using e by auto
    next
      case (Cons d ds)
      then have "cs = ds @ pat @ suf" using e by simp
      then show ?thesis by blast
    qed
  next
    assume "(\<exists>suf. c # cs = pat @ suf) \<or> (\<exists>pre suf. cs = pre @ pat @ suf)"
    then show "\<exists>pre suf. c # cs = pre @ pat @ suf"
    proof
      assume "\<exists>suf. c # cs = pat @ suf"
      then obtain suf where "c # cs = [] @ pat @ suf" by auto
      then show ?thesis by blast
    next
      assume "\<exists>pre suf. cs = pre @ pat @ suf"
      then obtain pre suf where "c # cs = (c # pre) @ pat @ suf" by auto
      then show ?thesis by blast
    qed
  qed
  then show ?case
    using Cons.IH by (simp add: startswith_iff)
qed

text \<open>
  Claim C9. The suggestions that \<open>analyze_password\<close> returns are, in this order: the
  common-pattern message if that penalty fired, the repetition message if that penalty
  fired, then one fixed message for each criterion that is false, in the order length,
  uppercase, lowercase, digits, special. So the list is empty exactly when no penalty
  fired and all five criteria are true, and not empty otherwise.
\<close>

theorem suggestions_order:
  "suggestions (analyze_password u password) =
     (if has_common_pattern u password
      then [''Avoid common passwords or predictable patterns''] else [])
     @ (if repetitive password then [''Reduce character repetition''] else [])
     @ (if \<not> length_crit (criteria (analyze_password u password))
        then [''Use 12+ characters for better security''] else [])
     @ (if \<not> uppercase (criteria (analyze_password u password))
        then [''Add uppercase letters (A-Z)''] else [])
     @ (if \<not> lowercase (criteria (analyze_password u password))
        then [''Add lowercase letters (a-z)''] else [])
     @ (if \<not> digits (criteria (analyze_password u password))
        then [''Include numbers (0-9)''] else [])
     @ (if \<not> special (criteria (analyze_password u password))
        then [''Add special characters (!@#$%^&*)''] else []) \<and>
   (suggestions (analyze_password u password) = [] \<longleftrightarrow>
      \<not> has_common_pattern u password \<and> \<not> repetitive password \<and>
      length_crit (criteria (analyze_password u password)) \<and>
      uppercase (criteria (analyze_password u password)) \<and>
      lowercase (criteria (analyze_password u password)) \<and>
      digits (criteria (analyze_password u password)) \<and>
      special (criteria (analyze_password u password)))"
  by (rule conjI, rule suggestions_eq, subst suggestions_eq)
    (simp only: append_is_Nil_conv singleton_if_Nil not_not)

theorem suggestions_order_witness:
  "suggestions (analyze_password ascii_db (ascii ''aaaa'')) =
     [''Reduce character repetition'', ''Use 12+ characters for better security'',
      ''Add uppercase letters (A-Z)'', ''Include numbers (0-9)'',
      ''Add special characters (!@#$%^&*)''] \<and>
   suggestions (analyze_password ascii_db (ascii ''aaaa'')) \<noteq> []"
proof -
  have p: "has_common_pattern ascii_db (ascii ''aaaa'') = False"
    by code_simp
  have r: "repetitive (ascii ''aaaa'') = True"
    unfolding repetitive_iff by code_simp
  have c: "criteria (analyze_password ascii_db (ascii ''aaaa'')) =
      \<lparr> length_crit = False, uppercase = False, lowercase = True, digits = False,
        special = False \<rparr>"
    unfolding criteria_analyze by code_simp
  show ?thesis
    using suggestions_order [of ascii_db "ascii ''aaaa''"] unfolding p r c by simp
qed

subsection \<open>The two penalties\<close>

lemma repetition_message_iff:
  "''Reduce character repetition'' \<in> set (suggestions (analyze_password u password)) \<longleftrightarrow>
     repetitive password"
  by (subst suggestions_eq) simp

lemma common_message_iff:
  "''Avoid common passwords or predictable patterns''
     \<in> set (suggestions (analyze_password u password)) \<longleftrightarrow> has_common_pattern u password"
  by (subst suggestions_eq) simp

lemma common_message_first:
  "has_common_pattern u password \<Longrightarrow>
     take 1 (suggestions (analyze_password u password)) =
       [''Avoid common passwords or predictable patterns'']"
  by (subst suggestions_eq) simp

text \<open>
  Claim C7. The repetition penalty fires exactly when the number of distinct characters
  is less than half the length, the half taken without rounding (so exactly when twice
  the number of distinct characters is less than the length). When it fires, the score
  becomes \<open>max 20 (s - 20)\<close>, where \<open>s\<close> is the score after the common-pattern step, and
  the repetition message is appended; otherwise nothing changes. Whether it fires depends
  on the string alone, not on the common-pattern penalty.
\<close>

theorem repetition_penalty:
  "(repetitive password \<longleftrightarrow> real (card (set password)) < real (length password) / 2) \<and>
   (repetitive password \<longleftrightarrow> 2 * card (set password) < length password) \<and>
   repetition_check password (s, sg) =
     (if repetitive password
      then (max 20 (s - 20), sg @ [''Reduce character repetition'']) else (s, sg)) \<and>
   score (analyze_password u password) =
     fst (repetition_check password
       (common_check u password (additive_score (criteria_of u password) password, []))) \<and>
   score (analyze_password u password) =
     (if repetitive password
      then max 20 (fst (common_check u password
             (additive_score (criteria_of u password) password, [])) - 20)
      else fst (common_check u password
             (additive_score (criteria_of u password) password, []))) \<and>
   (''Reduce character repetition'' \<in> set (suggestions (analyze_password u password)) \<longleftrightarrow>
      repetitive password)"
proof -
  have a: "repetitive password \<longleftrightarrow> real (card (set password)) < real (length password) / 2"
    by (simp only: repetitive_def length_remdups_card_conv)
  have b: "repetitive password \<longleftrightarrow> 2 * card (set password) < length password"
    by (simp only: repetitive_iff length_remdups_card_conv)
  have c: "repetition_check password (s, sg) =
     (if repetitive password
      then (max 20 (s - 20), sg @ [''Reduce character repetition'']) else (s, sg))"
    by (simp add: repetition_check_def)
  have d: "score (analyze_password u password) =
     (if repetitive password
      then max 20 (fst (common_check u password
             (additive_score (criteria_of u password) password, [])) - 20)
      else fst (common_check u password
             (additive_score (criteria_of u password) password, [])))"
    unfolding score_analyze
    by (cases "common_check u password (additive_score (criteria_of u password) password, [])")
      (simp add: repetition_check_def)
  show ?thesis
    using a b c score_analyze d repetition_message_iff by (intro conjI)
qed

theorem repetition_penalty_witness:
  "repetitive (ascii ''aaabbbc'') \<and>
   card (set (ascii ''aaabbbc'')) = 3 \<and> length (ascii ''aaabbbc'') = 7 \<and>
   score (analyze_password ascii_db (ascii ''aaabbbc'')) = 20 \<and>
   ''Reduce character repetition''
     \<in> set (suggestions (analyze_password ascii_db (ascii ''aaabbbc'')))"
proof -
  note t = repetition_penalty [of "ascii ''aaabbbc''" 0 "[]" ascii_db]
  have n: "length (remdups (ascii ''aaabbbc'')) = 3" "length (ascii ''aaabbbc'') = 7"
    by code_simp+
  have k: "card (set (ascii ''aaabbbc'')) = 3"
    using n(1) by (simp only: length_remdups_card_conv)
  have r: "repetitive (ascii ''aaabbbc'')"
    using t k n(2) by simp
  have p: "has_common_pattern ascii_db (ascii ''aaabbbc'') = False"
    by code_simp
  have a: "additive_score (criteria_of ascii_db (ascii ''aaabbbc'')) (ascii ''aaabbbc'') = 29"
    by code_simp
  have s: "score (analyze_password ascii_db (ascii ''aaabbbc'')) = 20"
    using t r by (simp add: fst_common_check p a)
  show ?thesis
    using t r k n(2) s by simp
qed

text \<open>
  Claim C6. The common-pattern penalty fires exactly when the lowercase form of the
  string contains \<open>password\<close>, \<open>1234\<close>, \<open>qwerty\<close> or \<open>admin\<close> as a contiguous run. When it
  fires, the score becomes \<open>max 10 (a - 40)\<close>, where \<open>a\<close> is the additive score of the length
  and class terms, before the repetition check looks at it, and the common-pattern
  message is appended to the (still empty) suggestions; when it does not fire, the step
  leaves the score and the suggestions as they are.
\<close>

theorem common_pattern_penalty:
  "(has_common_pattern u password \<longleftrightarrow>
      (\<exists>pattern\<in>set [ascii ''password'', ascii ''1234'', ascii ''qwerty'', ascii ''admin''].
         \<exists>pre suf. lower u password = pre @ pattern @ suf)) \<and>
   common_check u password (s, sg) =
     (if has_common_pattern u password
      then (max 10 (s - 40), sg @ [''Avoid common passwords or predictable patterns''])
      else (s, sg)) \<and>
   (has_common_pattern u password \<longrightarrow>
      score (analyze_password u password) =
        (if repetitive password
         then max 20 (max 10 (additive_score (criteria_of u password) password - 40) - 20)
         else max 10 (additive_score (criteria_of u password) password - 40)) \<and>
      take 1 (suggestions (analyze_password u password)) =
        [''Avoid common passwords or predictable patterns'']) \<and>
   (\<not> has_common_pattern u password \<longrightarrow>
      score (analyze_password u password) =
        (if repetitive password
         then max 20 (additive_score (criteria_of u password) password - 20)
         else additive_score (criteria_of u password) password) \<and>
      ''Avoid common passwords or predictable patterns''
        \<notin> set (suggestions (analyze_password u password)))"
proof -
  have a: "has_common_pattern u password \<longleftrightarrow>
      (\<exists>pattern\<in>set [ascii ''password'', ascii ''1234'', ascii ''qwerty'', ascii ''admin''].
         \<exists>pre suf. lower u password = pre @ pattern @ suf)"
    by (simp only: has_common_pattern_def common_patterns_def list_ex_iff str_contains_iff)
  have b: "common_check u password (s, sg) =
     (if has_common_pattern u password
      then (max 10 (s - 40), sg @ [''Avoid common passwords or predictable patterns''])
      else (s, sg))"
    by (simp add: common_check_def)
  have c: "score (analyze_password u password) =
        (if repetitive password
         then max 20 (max 10 (additive_score (criteria_of u password) password - 40) - 20)
         else max 10 (additive_score (criteria_of u password) password - 40))"
    if "has_common_pattern u password"
    using that by (simp add: score_analyze common_check_def repetition_check_def)
  have d: "score (analyze_password u password) =
        (if repetitive password
         then max 20 (additive_score (criteria_of u password) password - 20)
         else additive_score (criteria_of u password) password)"
    if "\<not> has_common_pattern u password"
    using that by (simp add: score_analyze common_check_def repetition_check_def)
  show ?thesis
    using a b c d common_message_first common_message_iff by (intro conjI impI) simp_all
qed

theorem common_pattern_penalty_witness:
  "has_common_pattern ascii_db (ascii ''PassWord'') \<and>
   score (analyze_password ascii_db (ascii ''PassWord'')) = 10 \<and>
   take 1 (suggestions (analyze_password ascii_db (ascii ''PassWord''))) =
     [''Avoid common passwords or predictable patterns''] \<and>
   \<not> has_common_pattern ascii_db (ascii ''Tr0ub4dor&3XQ'') \<and>
   score (analyze_password ascii_db (ascii ''Tr0ub4dor&3XQ'')) = 96"
proof -
  note t1 = common_pattern_penalty [of ascii_db "ascii ''PassWord''" 0 "[]"]
  note t2 = common_pattern_penalty [of ascii_db "ascii ''Tr0ub4dor&3XQ''" 0 "[]"]
  have p1: "has_common_pattern ascii_db (ascii ''PassWord'')"
    by code_simp
  have r1: "\<not> repetitive (ascii ''PassWord'')"
    unfolding repetitive_iff by code_simp
  have a1: "additive_score (criteria_of ascii_db (ascii ''PassWord'')) (ascii ''PassWord'') = 46"
    by code_simp
  have p2: "\<not> has_common_pattern ascii_db (ascii ''Tr0ub4dor&3XQ'')"
    by code_simp
  have r2: "\<not> repetitive (ascii ''Tr0ub4dor&3XQ'')"
    unfolding repetitive_iff by code_simp
  have a2: "additive_score (criteria_of ascii_db (ascii ''Tr0ub4dor&3XQ''))
      (ascii ''Tr0ub4dor&3XQ'') = 96"
    by code_simp
  have s1: "score (analyze_password ascii_db (ascii ''PassWord'')) = 10"
    using t1 p1 r1 a1 by simp
  have m1: "take 1 (suggestions (analyze_password ascii_db (ascii ''PassWord''))) =
     [''Avoid common passwords or predictable patterns'']"
    using t1 p1 by blast
  have s2: "score (analyze_password ascii_db (ascii ''Tr0ub4dor&3XQ'')) = 96"
    using t2 p2 r2 a2 by simp
  show ?thesis
    using p1 s1 m1 p2 s2 by (intro conjI)
qed

subsection \<open>The analysis of one strong password\<close>

lemma log2_94_lower: "426 < 65 * log 2 94"
proof -
  have p: "(2::real) ^ 426 < 94 ^ 65"
    by simp
  have a: "log 2 ((2::real) ^ 426) = 426"
    by (subst log_pow_cancel) simp_all
  have b: "log 2 ((94::real) ^ 65) = 65 * log 2 94"
    by (subst log_nat_power) simp_all
  have "log 2 ((2::real) ^ 426) < log 2 (94 ^ 65)"
    using p by (subst log_less_cancel_iff) simp_all
  then show ?thesis
    unfolding a b .
qed

lemma log2_94_upper: "130 * log 2 94 < 853"
proof -
  have p: "(94::real) ^ 130 < 2 ^ 853"
    by simp
  have a: "log 2 ((2::real) ^ 853) = 853"
    by (subst log_pow_cancel) simp_all
  have b: "log 2 ((94::real) ^ 130) = 130 * log 2 94"
    by (subst log_nat_power) simp_all
  have "log 2 ((94::real) ^ 130) < log 2 (2 ^ 853)"
    using p by (subst log_less_cancel_iff) simp_all
  then show ?thesis
    unfolding a b .
qed

lemma troubador_criteria:
  "criteria_of u (ascii ''Tr0ub4dor&3XQ'') =
     \<lparr> length_crit = True, uppercase = True, lowercase = True, digits = True,
       special = True \<rparr>"
  by code_simp

lemma troubador_length: "length (ascii ''Tr0ub4dor&3XQ'') = 13"
  by code_simp

lemma troubador_additive:
  "additive_score (criteria_of u (ascii ''Tr0ub4dor&3XQ'')) (ascii ''Tr0ub4dor&3XQ'') = 96"
  by code_simp

lemma troubador_no_pattern: "\<not> has_common_pattern u (ascii ''Tr0ub4dor&3XQ'')"
  by code_simp

lemma troubador_not_repetitive: "\<not> repetitive (ascii ''Tr0ub4dor&3XQ'')"
  unfolding repetitive_iff by code_simp

lemma troubador_pool: "char_pool (criteria_of u (ascii ''Tr0ub4dor&3XQ'')) = 94"
  unfolding troubador_criteria by (simp add: char_pool_def)

lemma troubador_entropy:
  "entropy (analyze_password u (ascii ''Tr0ub4dor&3XQ'')) = 13 * log 2 94"
  by (simp add: entropy_analyze entropy_of_def troubador_pool troubador_length)

lemma troubador_score: "score (analyze_password u (ascii ''Tr0ub4dor&3XQ'')) = 96"
  by (simp add: score_analyze troubador_additive common_check_def repetition_check_def
      troubador_no_pattern troubador_not_repetitive)

text \<open>
  Claim C5, as stated, gives the password \<open>Tr0ub4dor&3XQ\<close> an additive score of
  \<open>30 + 15 + 15 + 20 + 20 = 100\<close>. The password has 13 characters, so its length term is
  \<open>min (13 * 2) 30 = 26\<close>, and its additive score is 96.
\<close>

theorem troubador_additive_counterexample:
  "additive_score (criteria_of ascii_db (ascii ''Tr0ub4dor&3XQ'')) (ascii ''Tr0ub4dor&3XQ'') = 96 \<and>
   additive_score (criteria_of ascii_db (ascii ''Tr0ub4dor&3XQ'')) (ascii ''Tr0ub4dor&3XQ'')
     \<noteq> 30 + 15 + 15 + 20 + 20 \<and>
   min (int (length (ascii ''Tr0ub4dor&3XQ'')) * 2) 30 = 26"
  by (simp add: troubador_additive troubador_length)

text \<open>
  Claim C5, amended. For the password \<open>Tr0ub4dor&3XQ\<close>, all five criteria are true, the
  character pool is 94, the entropy is \<open>13 * log 2 94\<close> (between 85.2 and 85.3), the additive
  score is \<open>26 + 15 + 15 + 20 + 20 = 96\<close>, no penalty fires, the score is 96, there are no
  suggestions, and the strength is \<open>Excellent\<close>.
\<close>

theorem troubador_analysis:
  "criteria (analyze_password u (ascii ''Tr0ub4dor&3XQ'')) =
     \<lparr> length_crit = True, uppercase = True, lowercase = True, digits = True,
       special = True \<rparr> \<and>
   char_pool (criteria (analyze_password u (ascii ''Tr0ub4dor&3XQ''))) = 94 \<and>
   entropy (analyze_password u (ascii ''Tr0ub4dor&3XQ'')) = 13 * log 2 94 \<and>
   85.2 < entropy (analyze_password u (ascii ''Tr0ub4dor&3XQ'')) \<and>
   entropy (analyze_password u (ascii ''Tr0ub4dor&3XQ'')) < 85.3 \<and>
   additive_score (criteria_of u (ascii ''Tr0ub4dor&3XQ'')) (ascii ''Tr0ub4dor&3XQ'') =
     26 + 15 + 15 + 20 + 20 \<and>
   \<not> has_common_pattern u (ascii ''Tr0ub4dor&3XQ'') \<and>
   \<not> repetitive (ascii ''Tr0ub4dor&3XQ'') \<and>
   score (analyze_password u (ascii ''Tr0ub4dor&3XQ'')) = 96 \<and>
   suggestions (analyze_password u (ascii ''Tr0ub4dor&3XQ'')) = [] \<and>
   strength (analyze_password u (ascii ''Tr0ub4dor&3XQ'')) = (''Excellent'', ''strength-excellent'')"
proof -
  let ?r = "analyze_password u (ascii ''Tr0ub4dor&3XQ'')"
  have c: "criteria ?r =
     \<lparr> length_crit = True, uppercase = True, lowercase = True, digits = True,
       special = True \<rparr>"
    by (simp only: criteria_analyze troubador_criteria)
  have p: "char_pool (criteria ?r) = 94"
    by (simp only: criteria_analyze troubador_pool)
  have lo: "85.2 < entropy ?r"
    using log2_94_lower by (simp add: troubador_entropy)
  have hi: "entropy ?r < 85.3"
    using log2_94_upper by (simp add: troubador_entropy)
  have a: "additive_score (criteria_of u (ascii ''Tr0ub4dor&3XQ'')) (ascii ''Tr0ub4dor&3XQ'') =
     26 + 15 + 15 + 20 + 20"
    by (simp add: troubador_additive)
  have sg: "suggestions ?r = []"
    by (subst suggestions_eq)
      (simp add: c troubador_no_pattern troubador_not_repetitive)
  have st: "strength ?r = (''Excellent'', ''strength-excellent'')"
    using lo by (simp add: strength_analyze troubador_score classify_def)
  show ?thesis
    using c p troubador_entropy lo hi a troubador_no_pattern troubador_not_repetitive
      troubador_score sg st
    by (intro conjI)
qed

theorem troubador_analysis_witness:
  "score (analyze_password ascii_db (ascii ''Tr0ub4dor&3XQ'')) = 96 \<and>
   suggestions (analyze_password ascii_db (ascii ''Tr0ub4dor&3XQ'')) = [] \<and>
   strength (analyze_password ascii_db (ascii ''Tr0ub4dor&3XQ'')) =
     (''Excellent'', ''strength-excellent'')"
  using troubador_analysis [of ascii_db] by (intro conjI) blast+

subsection \<open>The penalties and the additive score\<close>












end
